theory Spec2Isabelle
  imports Main "HOL-Library.Sublist"
begin

section \<open>Localization service of the engine (Source/Engine/Localization/Localization.cpp)\<close>

subsection \<open>Collaborators that the file only uses\<close>

text \<open>
  Modelled from the spec: the class \<open>CultureInfo\<close> (CultureInfo.h) is used by
  Localization.cpp but declared elsewhere. The spec describes it as an opaque locale
  identifier that the culture facility maps to a name and to a parent identifier. The
  three accessors the file calls are the fields of the record.
\<close>

record CultureInfo =
  GetLCID :: int
  GetParentLCID :: int
  GetName :: string

text \<open>
  Modelled from the spec: \<open>CultureInfo::operator==\<close> is declared outside the file. The
  spec says the setters compare "on the locale identifier, not string".
\<close>

definition CultureInfo_eq :: "CultureInfo \<Rightarrow> CultureInfo \<Rightarrow> bool" where
  "CultureInfo_eq a b = (GetLCID a = GetLCID b)"

text \<open>\<open>String::HasChars\<close>: the string is not empty.\<close>

definition HasChars :: "string \<Rightarrow> bool" where
  "HasChars str = (length str > 0)"

text \<open>
  A localized string table asset. The file reads its \<open>Locale\<close> only; \<open>AssetID\<close> stands
  for the identity of the asset object, so that two tables of one locale can be told apart.
\<close>

record LocalizedStringTable =
  AssetID :: nat
  Locale :: string

text \<open>
  \<open>AssetReference<LocalizedStringTable>\<close>: \<open>Get()\<close> returns the asset or a null pointer.
\<close>

type_synonym AssetReference = "LocalizedStringTable option"

text \<open>
  What a call of the service reads from the rest of the engine:
  the configured list \<open>LocalizationSettings::Get()->LocalizedStringTables\<close>,
  the outcome of \<open>Asset::WaitForLoaded\<close> (true when the asset could not be loaded),
  the two constructors of \<open>CultureInfo\<close> (from an identifier and from a name),
  and \<open>Platform::GetUserLocaleName\<close>.
\<close>

record Engine =
  SettingsLocalizedStringTables :: "AssetReference list"
  WaitForLoaded :: "LocalizedStringTable \<Rightarrow> bool"
  CultureInfoLCID :: "int \<Rightarrow> CultureInfo"
  CultureInfoName :: "string \<Rightarrow> CultureInfo"
  GetUserLocaleName :: string

subsection \<open>The dictionary from locale to tables\<close>

text \<open>
  \<open>Dictionary<String, Array<AssetReference<LocalizedStringTable>>>\<close> as a list of
  entries with distinct keys. A pointer to the value of an entry, as \<open>TryGet\<close> returns
  it, is the position of the entry.
\<close>

type_synonym Dictionary = "(string \<times> LocalizedStringTable list) list"

text \<open>\<open>tables[key].Add(item)\<close>: the entry is created empty when the key is new.\<close>

fun At_Add :: "Dictionary \<Rightarrow> string \<Rightarrow> LocalizedStringTable \<Rightarrow> Dictionary" where
  "At_Add [] key item = [(key, [item])]"
| "At_Add ((k, v) # es) key item =
     (if k = key then (k, v @ [item]) # es else (k, v) # At_Add es key item)"

text \<open>\<open>tables.TryGet(key)\<close>: a pointer to the value, or null.\<close>

fun TryGet :: "Dictionary \<Rightarrow> string \<Rightarrow> nat option" where
  "TryGet [] key = None"
| "TryGet ((k, v) # es) key =
     (if k = key then Some 0 else map_option Suc (TryGet es key))"

text \<open>Reading through a pointer that \<open>TryGet\<close> returned.\<close>

definition deref :: "Dictionary \<Rightarrow> nat \<Rightarrow> LocalizedStringTable list" where
  "deref tables p = (if p < length tables then snd (tables ! p) else [])"

subsection \<open>The service\<close>

datatype LogMessage =
  ChangingCulture string int
| ChangingLanguage string int
| ChangingLanguageCulture string int
| UsingLocalization string

text \<open>
  The fields of \<open>LocalizationService\<close>, and the two effects of the file on the outside:
  \<open>Fired\<close> counts the invocations of the delegate \<open>Localization::LocalizationChanged\<close>,
  \<open>Logged\<close> collects the messages written with \<open>LOG\<close>.
\<close>

record LocalizationService =
  CurrentCulture :: CultureInfo
  CurrentLanguage :: CultureInfo
  LocalizedStringTables :: "LocalizedStringTable list"
  Fired :: nat
  Logged :: "LogMessage list"

text \<open>The constructor: both cultures are \<open>CultureInfo(0)\<close>, no table is active.\<close>

definition LocalizationService_new :: "Engine \<Rightarrow> LocalizationService" where
  "LocalizationService_new eng =
     \<lparr> CurrentCulture = CultureInfoLCID eng 0,
       CurrentLanguage = CultureInfoLCID eng 0,
       LocalizedStringTables = [],
       Fired = 0,
       Logged = [] \<rparr>"

text \<open>Lines 58 to 65: the loop that collects the loaded tables by locale.\<close>

fun collect :: "(LocalizedStringTable \<Rightarrow> bool) \<Rightarrow> AssetReference list \<Rightarrow> Dictionary \<Rightarrow> Dictionary" where
  "collect wait [] tables = tables"
| "collect wait (e # es) tables =
     (case e of
        None \<Rightarrow> collect wait es tables
      | Some table \<Rightarrow>
          if \<not> wait table
          then collect wait es (At_Add tables (Locale table) table)
          else collect wait es tables)"

definition CollectTables :: "Engine \<Rightarrow> Dictionary" where
  "CollectTables eng = collect (WaitForLoaded eng) (SettingsLocalizedStringTables eng) []"

text \<open>Lines 68 to 81: the table picked for the current language.\<close>

definition PickTable :: "Engine \<Rightarrow> CultureInfo \<Rightarrow> Dictionary \<Rightarrow> nat option" where
  "PickTable eng language tables =
     (case TryGet tables (GetName language) of
        Some table \<Rightarrow> Some table
      | None \<Rightarrow>
          (let parentLanguage = CultureInfoLCID eng (GetParentLCID language);
               table = (if HasChars (GetName parentLanguage)
                        then TryGet tables (GetName parentLanguage) else None)
           in case table of
                Some table \<Rightarrow> Some table
              | None \<Rightarrow>
                  (let english = CultureInfoName eng ''en''
                   in TryGet tables (GetName english))))"

text \<open>
  Lines 86 to 94: the key of the entry whose value the pointer designates, found by
  walking the entries; \<open>i\<close> is the position of the first entry of \<open>es\<close>.
\<close>

fun FindLocale :: "Dictionary \<Rightarrow> nat \<Rightarrow> nat \<Rightarrow> string" where
  "FindLocale [] i table = []"
| "FindLocale ((k, v) # es) i table =
     (if i = table then k else FindLocale es (Suc i) table)"

definition OnLocalizationChanged :: "Engine \<Rightarrow> LocalizationService \<Rightarrow> LocalizationService" where
  "OnLocalizationChanged eng s =
     (let s1 = s\<lparr>LocalizedStringTables := []\<rparr>;
          tables = CollectTables eng;
          s2 = (case PickTable eng (CurrentLanguage s1) tables of
                  None \<Rightarrow> s1
                | Some table \<Rightarrow>
                    s1\<lparr>Logged := Logged s1 @ [UsingLocalization (FindLocale tables 0 table)],
                       LocalizedStringTables := LocalizedStringTables s1 @ deref tables table\<rparr>)
      in s2\<lparr>Fired := Suc (Fired s2)\<rparr>)"

text \<open>\<open>LocalizationSettings::Apply\<close>.\<close>

definition Apply :: "Engine \<Rightarrow> LocalizationService \<Rightarrow> LocalizationService" where
  "Apply eng s = OnLocalizationChanged eng s"

text \<open>\<open>LocalizationService::Init\<close>; the result \<open>False\<close> is the success code.\<close>

definition Init :: "Engine \<Rightarrow> LocalizationService \<Rightarrow> LocalizationService \<times> bool" where
  "Init eng s =
     (let c = CultureInfoName eng (GetUserLocaleName eng)
      in (OnLocalizationChanged eng (s\<lparr>CurrentCulture := c, CurrentLanguage := c\<rparr>), False))"

definition GetCurrentCulture :: "LocalizationService \<Rightarrow> CultureInfo" where
  "GetCurrentCulture s = CurrentCulture s"

definition SetCurrentCulture :: "Engine \<Rightarrow> CultureInfo \<Rightarrow> LocalizationService \<Rightarrow> LocalizationService" where
  "SetCurrentCulture eng v s =
     (if CultureInfo_eq (CurrentCulture s) v then s
      else OnLocalizationChanged eng
             (s\<lparr>Logged := Logged s @ [ChangingCulture (GetName v) (GetLCID v)],
                CurrentCulture := v\<rparr>))"

definition GetCurrentLanguage :: "LocalizationService \<Rightarrow> CultureInfo" where
  "GetCurrentLanguage s = CurrentLanguage s"

definition SetCurrentLanguage :: "Engine \<Rightarrow> CultureInfo \<Rightarrow> LocalizationService \<Rightarrow> LocalizationService" where
  "SetCurrentLanguage eng v s =
     (if CultureInfo_eq (CurrentLanguage s) v then s
      else OnLocalizationChanged eng
             (s\<lparr>Logged := Logged s @ [ChangingLanguage (GetName v) (GetLCID v)],
                CurrentLanguage := v\<rparr>))"

definition SetCurrentLanguageCulture :: "Engine \<Rightarrow> CultureInfo \<Rightarrow> LocalizationService \<Rightarrow> LocalizationService" where
  "SetCurrentLanguageCulture eng v s =
     (if CultureInfo_eq (CurrentCulture s) v \<and> CultureInfo_eq (CurrentLanguage s) v then s
      else OnLocalizationChanged eng
             (s\<lparr>Logged := Logged s @ [ChangingLanguageCulture (GetName v) (GetLCID v)],
                CurrentCulture := v,
                CurrentLanguage := v\<rparr>))"

subsection \<open>A small engine for concrete runs\<close>

definition culture :: "int \<Rightarrow> int \<Rightarrow> string \<Rightarrow> CultureInfo" where
  "culture l p n = \<lparr> GetLCID = l, GetParentLCID = p, GetName = n \<rparr>"

text \<open>A few cultures with their Windows identifiers; 127 is the invariant culture.\<close>

definition cultures :: "CultureInfo list" where
  "cultures =
     [culture 9 127 ''en'', culture 2057 9 ''en-GB'', culture 10 127 ''es'',
      culture 2058 10 ''es-MX'', culture 11274 10 ''es-AR'', culture 12 127 ''fr'',
      culture 7 127 ''de'']"

definition invariant_culture :: CultureInfo where
  "invariant_culture = culture 127 0 []"

definition by_lcid :: "int \<Rightarrow> CultureInfo" where
  "by_lcid l = (case find (\<lambda>c. GetLCID c = l) cultures of Some c \<Rightarrow> c | None \<Rightarrow> invariant_culture)"

definition by_name :: "string \<Rightarrow> CultureInfo" where
  "by_name n = (case find (\<lambda>c. GetName c = n) cultures of Some c \<Rightarrow> c | None \<Rightarrow> invariant_culture)"

definition tbl :: "nat \<Rightarrow> string \<Rightarrow> LocalizedStringTable" where
  "tbl i l = \<lparr> AssetID = i, Locale = l \<rparr>"

definition engine :: "AssetReference list \<Rightarrow> nat list \<Rightarrow> Engine" where
  "engine refs failing =
     \<lparr> SettingsLocalizedStringTables = refs,
       WaitForLoaded = (\<lambda>t. AssetID t \<in> set failing),
       CultureInfoLCID = by_lcid,
       CultureInfoName = by_name,
       GetUserLocaleName = ''en-GB'' \<rparr>"

subsection \<open>Notions used to state the properties\<close>

text \<open>
  The configured references that resolve to an asset and load, in the order of the
  configured list.
\<close>

fun loaded :: "(LocalizedStringTable \<Rightarrow> bool) \<Rightarrow> AssetReference list \<Rightarrow> LocalizedStringTable list" where
  "loaded wait [] = []"
| "loaded wait (None # es) = loaded wait es"
| "loaded wait (Some table # es) =
     (if wait table then loaded wait es else table # loaded wait es)"

definition LoadedTables :: "Engine \<Rightarrow> LocalizedStringTable list" where
  "LoadedTables eng = loaded (WaitForLoaded eng) (SettingsLocalizedStringTables eng)"

text \<open>The tables stored under a key; none when the key is absent.\<close>

definition bucket :: "Dictionary \<Rightarrow> string \<Rightarrow> LocalizedStringTable list" where
  "bucket tables key = (case map_of tables key of None \<Rightarrow> [] | Some v \<Rightarrow> v)"

definition no_empty_bucket :: "Dictionary \<Rightarrow> bool" where
  "no_empty_bucket tables = list_all (\<lambda>e. snd e \<noteq> []) tables"

text \<open>
  The resolution as the specification words it, over a pool that maps a locale name to
  its tables: the exact name, then the parent's name when it is not empty, then "en",
  the first hit wins, and nothing when all three miss.
\<close>

definition SpecResolve ::
  "(string \<rightharpoonup> LocalizedStringTable list) \<Rightarrow> string \<Rightarrow> string \<Rightarrow> LocalizedStringTable list" where
  "SpecResolve pool language parent =
     (case pool language of
        Some exact \<Rightarrow> exact
      | None \<Rightarrow>
          (case (if parent \<noteq> [] then pool parent else None) of
             Some from_parent \<Rightarrow> from_parent
           | None \<Rightarrow> (case pool ''en'' of Some english \<Rightarrow> english | None \<Rightarrow> [])))"

text \<open>The name of the parent culture, as line 72 computes it.\<close>

definition ParentName :: "Engine \<Rightarrow> CultureInfo \<Rightarrow> string" where
  "ParentName eng language = GetName (CultureInfoLCID eng (GetParentLCID language))"

text \<open>All tables of the pool, bucket after bucket.\<close>

definition AllTables :: "Dictionary \<Rightarrow> LocalizedStringTable list" where
  "AllTables tables = concat (map snd tables)"

text \<open>All tables of a list carry one locale.\<close>

definition one_locale :: "LocalizedStringTable list \<Rightarrow> bool" where
  "one_locale ts = (\<forall>t \<in> set ts. \<forall>u \<in> set ts. Locale t = Locale u)"

text \<open>
  The states of the service that the operations of the file produce, starting from the
  constructor; the engine around the service may differ from one call to the next.
\<close>

inductive reachable :: "LocalizationService \<Rightarrow> bool" where
  r_new: "reachable (LocalizationService_new eng)"
| r_Init: "reachable s \<Longrightarrow> reachable (fst (Init eng s))"
| r_Apply: "reachable s \<Longrightarrow> reachable (Apply eng s)"
| r_SetCurrentCulture: "reachable s \<Longrightarrow> reachable (SetCurrentCulture eng v s)"
| r_SetCurrentLanguage: "reachable s \<Longrightarrow> reachable (SetCurrentLanguage eng v s)"
| r_SetCurrentLanguageCulture: "reachable s \<Longrightarrow> reachable (SetCurrentLanguageCulture eng v s)"

section \<open>Properties\<close>

subsection \<open>The dictionary\<close>

lemma map_of_At_Add:
  "map_of (At_Add tables key item) = (map_of tables)(key \<mapsto> bucket tables key @ [item])"
  by (induction tables key item rule: At_Add.induct) (auto simp: bucket_def fun_eq_iff)

lemma bucket_At_Add:
  "bucket (At_Add tables key item) k =
     (if k = key then bucket tables key @ [item] else bucket tables k)"
  by (simp add: bucket_def map_of_At_Add)

lemma no_empty_bucket_At_Add:
  "no_empty_bucket tables \<Longrightarrow> no_empty_bucket (At_Add tables key item)"
  by (induction tables key item rule: At_Add.induct) (auto simp: no_empty_bucket_def)

lemma no_empty_bucket_map_of:
  "no_empty_bucket tables \<Longrightarrow> map_of tables k = Some v \<Longrightarrow> v \<noteq> []"
  by (induction tables) (auto simp: no_empty_bucket_def split: if_splits)

lemma TryGet_None: "TryGet tables key = None \<longleftrightarrow> map_of tables key = None"
  by (induction tables key rule: TryGet.induct) auto

lemma TryGet_Some:
  "TryGet tables key = Some p \<Longrightarrow> map_of tables key = Some (deref tables p)"
  by (induction tables key arbitrary: p rule: TryGet.induct)
     (auto simp: deref_def split: if_splits)

lemma TryGet_deref: "map_option (deref tables) (TryGet tables key) = map_of tables key"
  by (cases "TryGet tables key") (simp_all add: TryGet_None TryGet_Some)

text \<open>The walk of lines 87 to 94 finds the key that was looked up.\<close>

lemma FindLocale_TryGet:
  "TryGet tables key = Some p \<Longrightarrow> FindLocale tables i (i + p) = key"
proof (induction tables key arbitrary: p i rule: TryGet.induct)
  case (1 key)
  then show ?case by simp
next
  case (2 k v es key)
  show ?case
  proof (cases "k = key")
    case True
    with 2 show ?thesis by simp
  next
    case False
    with "2.prems" obtain q where q: "TryGet es key = Some q" "p = Suc q" by auto
    from "2.IH" [OF False q(1), of "Suc i"] False q show ?thesis by simp
  qed
qed

subsection \<open>The collecting loop\<close>

lemma bucket_collect:
  "bucket (collect wait es tables) k =
     bucket tables k @ filter (\<lambda>t. Locale t = k) (loaded wait es)"
  by (induction wait es tables rule: collect.induct)
     (auto simp: bucket_At_Add split: option.splits)

lemma no_empty_bucket_collect:
  "no_empty_bucket tables \<Longrightarrow> no_empty_bucket (collect wait es tables)"
  by (induction wait es tables rule: collect.induct)
     (auto simp: no_empty_bucket_At_Add split: option.splits)

lemma bucket_CollectTables:
  "bucket (CollectTables eng) k = filter (\<lambda>t. Locale t = k) (LoadedTables eng)"
proof -
  have "bucket [] k = []" by (simp add: bucket_def)
  then show ?thesis by (simp add: CollectTables_def LoadedTables_def bucket_collect)
qed

lemma no_empty_bucket_CollectTables: "no_empty_bucket (CollectTables eng)"
proof -
  have "no_empty_bucket []" by (simp add: no_empty_bucket_def)
  then show ?thesis unfolding CollectTables_def by (rule no_empty_bucket_collect)
qed

text \<open>The pool is the grouping of the loaded tables by locale, each group in list order.\<close>

lemma map_of_CollectTables:
  "map_of (CollectTables eng) k =
     (if filter (\<lambda>t. Locale t = k) (LoadedTables eng) = [] then None
      else Some (filter (\<lambda>t. Locale t = k) (LoadedTables eng)))"
proof (cases "map_of (CollectTables eng) k")
  case None
  then have "bucket (CollectTables eng) k = []" by (simp add: bucket_def)
  with None show ?thesis by (simp add: bucket_CollectTables)
next
  case (Some v)
  then have "bucket (CollectTables eng) k = v" by (simp add: bucket_def)
  moreover have "v \<noteq> []"
    using no_empty_bucket_map_of [OF no_empty_bucket_CollectTables Some] .
  ultimately show ?thesis using Some by (simp add: bucket_CollectTables)
qed

lemma set_loaded:
  "set (loaded wait es) = {t. Some t \<in> set es \<and> \<not> wait t}"
  by (induction wait es rule: loaded.induct) auto

subsection \<open>The resolution pass\<close>

lemma PickTable_deref:
  "map_option (deref tables) (PickTable eng language tables) =
     (case map_of tables (GetName language) of
        Some b \<Rightarrow> Some b
      | None \<Rightarrow>
          (case (if ParentName eng language \<noteq> [] then map_of tables (ParentName eng language)
                 else None) of
             Some b \<Rightarrow> Some b
           | None \<Rightarrow> map_of tables (GetName (CultureInfoName eng ''en''))))"
proof (cases "TryGet tables (GetName language)")
  case (Some p)
  then show ?thesis by (simp add: PickTable_def TryGet_Some)
next
  case exact: None
  then have m: "map_of tables (GetName language) = None" by (simp add: TryGet_None)
  show ?thesis
  proof (cases "ParentName eng language \<noteq> []")
    case False
    with exact m show ?thesis
      by (simp add: PickTable_def ParentName_def HasChars_def TryGet_deref)
  next
    case True
    show ?thesis
    proof (cases "TryGet tables (ParentName eng language)")
      case None
      then have "map_of tables (ParentName eng language) = None" by (simp add: TryGet_None)
      with None exact m True show ?thesis
        by (simp add: PickTable_def ParentName_def HasChars_def TryGet_deref)
    next
      case (Some q)
      with exact m True show ?thesis
        by (simp add: PickTable_def ParentName_def HasChars_def TryGet_Some)
    qed
  qed
qed

lemma ActiveSet_pass:
  "LocalizedStringTables (OnLocalizationChanged eng s) =
     (case PickTable eng (CurrentLanguage s) (CollectTables eng) of
        None \<Rightarrow> [] | Some p \<Rightarrow> deref (CollectTables eng) p)"
  by (simp add: OnLocalizationChanged_def Let_def split: option.splits)

lemma Fired_pass: "Fired (OnLocalizationChanged eng s) = Suc (Fired s)"
  by (simp add: OnLocalizationChanged_def Let_def split: option.splits)

lemma CurrentLanguage_pass: "CurrentLanguage (OnLocalizationChanged eng s) = CurrentLanguage s"
  by (simp add: OnLocalizationChanged_def Let_def split: option.splits)

lemma CurrentCulture_pass: "CurrentCulture (OnLocalizationChanged eng s) = CurrentCulture s"
  by (simp add: OnLocalizationChanged_def Let_def split: option.splits)

text \<open>The active set after a pass, read off the pool as a map.\<close>

lemma ActiveSet_pass_map_of:
  "LocalizedStringTables (OnLocalizationChanged eng s) =
     (case map_of (CollectTables eng) (GetName (CurrentLanguage s)) of
        Some b \<Rightarrow> b
      | None \<Rightarrow>
          (case (if ParentName eng (CurrentLanguage s) \<noteq> []
                 then map_of (CollectTables eng) (ParentName eng (CurrentLanguage s))
                 else None) of
             Some b \<Rightarrow> b
           | None \<Rightarrow>
               (case map_of (CollectTables eng) (GetName (CultureInfoName eng ''en'')) of
                  Some b \<Rightarrow> b | None \<Rightarrow> [])))"
proof -
  have "LocalizedStringTables (OnLocalizationChanged eng s) =
          (case map_option (deref (CollectTables eng))
                  (PickTable eng (CurrentLanguage s) (CollectTables eng)) of
             None \<Rightarrow> [] | Some b \<Rightarrow> b)"
    by (simp add: ActiveSet_pass split: option.splits)
  then show ?thesis
    unfolding PickTable_deref by (simp split: option.splits)
qed

text \<open>What the loop puts into the pool, and the order of the loaded tables.\<close>

lemma set_AllTables_At_Add:
  "set (AllTables (At_Add tables key item)) = insert item (set (AllTables tables))"
  by (induction tables key item rule: At_Add.induct) (auto simp: AllTables_def)

lemma set_collect:
  "set (AllTables (collect wait es tables)) = set (AllTables tables) \<union> set (loaded wait es)"
proof (induction wait es tables rule: collect.induct)
  case (1 wait tables)
  show ?case by simp
next
  case (2 wait e es tables)
  show ?case
  proof (cases e)
    case None
    with 2 show ?thesis by simp
  next
    case (Some table)
    with 2 show ?thesis by (cases "wait table") (simp_all add: set_AllTables_At_Add)
  qed
qed

lemma subseq_loaded: "subseq (map Some (loaded wait es)) es"
  by (induction wait es rule: loaded.induct) auto

lemma map_of_CollectTables_Some:
  "map_of (CollectTables eng) k = Some b \<Longrightarrow>
     b = filter (\<lambda>t. Locale t = k) (LoadedTables eng) \<and> b \<noteq> []"
  by (simp add: map_of_CollectTables split: if_splits)

text \<open>The active set after a pass is empty or one of the three buckets.\<close>

lemma ActiveSet_pass_cases:
  "LocalizedStringTables (OnLocalizationChanged eng s) = [] \<or>
   (\<exists>k. map_of (CollectTables eng) k = Some (LocalizedStringTables (OnLocalizationChanged eng s))
        \<and> (k = GetName (CurrentLanguage s)
           \<or> (ParentName eng (CurrentLanguage s) \<noteq> [] \<and> k = ParentName eng (CurrentLanguage s))
           \<or> k = GetName (CultureInfoName eng ''en'')))"
proof -
  let ?pool = "map_of (CollectTables eng)"
  let ?A = "LocalizedStringTables (OnLocalizationChanged eng s)"
  let ?n = "GetName (CurrentLanguage s)"
  let ?p = "ParentName eng (CurrentLanguage s)"
  let ?e = "GetName (CultureInfoName eng ''en'')"
  show ?thesis
  proof (cases "?pool ?n")
    case (Some b)
    then have "?A = b" by (simp add: ActiveSet_pass_map_of)
    with Some show ?thesis by blast
  next
    case exact: None
    show ?thesis
    proof (cases "?p \<noteq> [] \<and> ?pool ?p \<noteq> None")
      case True
      then obtain b where b: "?pool ?p = Some b" by auto
      with exact True have "?A = b" by (simp add: ActiveSet_pass_map_of)
      with b True show ?thesis by blast
    next
      case False
      then have parent: "(if ?p \<noteq> [] then ?pool ?p else None) = None" by auto
      show ?thesis
      proof (cases "?pool ?e")
        case (Some b)
        have "?A = b" unfolding ActiveSet_pass_map_of exact parent Some by simp
        with Some show ?thesis by blast
      next
        case None
        have "?A = []" unfolding ActiveSet_pass_map_of exact parent None by simp
        then show ?thesis by blast
      qed
    qed
  qed
qed

lemma ActiveSet_pass_independent:
  "CurrentLanguage s1 = CurrentLanguage s2 \<Longrightarrow>
     LocalizedStringTables (OnLocalizationChanged eng s1) =
     LocalizedStringTables (OnLocalizationChanged eng s2)"
  by (simp add: ActiveSet_pass)

lemma one_locale_pass: "one_locale (LocalizedStringTables (OnLocalizationChanged eng s))"
proof (cases "LocalizedStringTables (OnLocalizationChanged eng s) = []")
  case True
  then show ?thesis by (simp add: one_locale_def)
next
  case False
  with ActiveSet_pass_cases [of eng s]
  obtain k where k: "map_of (CollectTables eng) k =
      Some (LocalizedStringTables (OnLocalizationChanged eng s))" by blast
  from map_of_CollectTables_Some [OF k]
  have A: "LocalizedStringTables (OnLocalizationChanged eng s) =
      filter (\<lambda>t. Locale t = k) (LoadedTables eng)" by simp
  show ?thesis unfolding one_locale_def by (subst A, subst A) simp
qed

subsection \<open>The states of the service\<close>

lemma one_locale_reachable: "reachable r \<Longrightarrow> one_locale (LocalizedStringTables r)"
proof (induction rule: reachable.induct)
  case (r_new eng)
  show ?case by (simp add: LocalizationService_new_def one_locale_def)
next
  case (r_Init s eng)
  show ?case by (simp add: Init_def Let_def one_locale_pass)
next
  case (r_Apply s eng)
  show ?case by (simp add: Apply_def one_locale_pass)
next
  case (r_SetCurrentCulture s eng v)
  then show ?case by (simp add: SetCurrentCulture_def one_locale_pass)
next
  case (r_SetCurrentLanguage s eng v)
  then show ?case by (simp add: SetCurrentLanguage_def one_locale_pass)
next
  case (r_SetCurrentLanguageCulture s eng v)
  then show ?case by (simp add: SetCurrentLanguageCulture_def one_locale_pass)
qed

subsection \<open>Concrete runs\<close>

lemmas run_simps =
  engine_def tbl_def by_name_def by_lcid_def cultures_def culture_def invariant_culture_def
  OnLocalizationChanged_def CollectTables_def PickTable_def deref_def HasChars_def
  LocalizationService_new_def Init_def Apply_def SetCurrentCulture_def SetCurrentLanguage_def
  SetCurrentLanguageCulture_def CultureInfo_eq_def Let_def ParentName_def SpecResolve_def
  LoadedTables_def AllTables_def

section \<open>The claims\<close>

text \<open>
  C1. The pass selects the bucket by a three-tier fallback, the first hit winning: the
  bucket of the full name of the current language; else, when the name of the parent
  culture is not empty, the bucket of that name; else the bucket of "en". The tables of the
  selected bucket are the whole active set, which is empty when nothing is selected. The
  code looks the default up under the name of \<open>CultureInfo("en")\<close>; the culture facility
  is assumed to give that culture the name "en".
\<close>

theorem resolution_three_tier:
  assumes "GetName (CultureInfoName eng ''en'') = ''en''"
  shows "LocalizedStringTables (OnLocalizationChanged eng s) =
           SpecResolve (map_of (CollectTables eng)) (GetName (CurrentLanguage s))
             (ParentName eng (CurrentLanguage s))"
  unfolding ActiveSet_pass_map_of SpecResolve_def assms by (rule refl)

theorem resolution_three_tier_witness:
  "GetName (CultureInfoName (engine [Some (tbl 1 ''en''), Some (tbl 2 ''fr'')] []) ''en'') = ''en''
   \<and> LocalizedStringTables
        (OnLocalizationChanged (engine [Some (tbl 1 ''en''), Some (tbl 2 ''fr'')] [])
           ((LocalizationService_new (engine [] []))\<lparr>CurrentLanguage := by_name ''en-GB''\<rparr>))
     = [tbl 1 ''en'']
   \<and> SpecResolve (map_of (CollectTables (engine [Some (tbl 1 ''en''), Some (tbl 2 ''fr'')] [])))
        ''en-GB'' ''en'' = [tbl 1 ''en'']"
  using resolution_three_tier [of "engine [Some (tbl 1 ''en''), Some (tbl 2 ''fr'')] []"
    "(LocalizationService_new (engine [] []))\<lparr>CurrentLanguage := by_name ''en-GB''\<rparr>"]
  by (simp add: run_simps)

text \<open>
  C2. Every pass invokes the change notification exactly once, whatever the outcome:
  the counter of invocations grows by one. When no bucket is picked, the active set is
  empty and the notification is still sent.
\<close>

theorem notification_once_per_pass:
  "Fired (OnLocalizationChanged eng s) = Suc (Fired s)
   \<and> (PickTable eng (CurrentLanguage s) (CollectTables eng) = None \<longrightarrow>
        LocalizedStringTables (OnLocalizationChanged eng s) = []
        \<and> Fired (OnLocalizationChanged eng s) = Suc (Fired s))"
  by (simp add: Fired_pass ActiveSet_pass)

theorem notification_once_per_pass_witness:
  "PickTable (engine [Some (tbl 1 ''fr''), Some (tbl 2 ''de'')] [])
     (CurrentLanguage ((LocalizationService_new (engine [] []))\<lparr>CurrentLanguage := by_name ''es''\<rparr>))
     (CollectTables (engine [Some (tbl 1 ''fr''), Some (tbl 2 ''de'')] [])) = None
   \<and> LocalizedStringTables
        (OnLocalizationChanged (engine [Some (tbl 1 ''fr''), Some (tbl 2 ''de'')] [])
           ((LocalizationService_new (engine [] []))\<lparr>CurrentLanguage := by_name ''es''\<rparr>)) = []
   \<and> Fired
        (OnLocalizationChanged (engine [Some (tbl 1 ''fr''), Some (tbl 2 ''de'')] [])
           ((LocalizationService_new (engine [] []))\<lparr>CurrentLanguage := by_name ''es''\<rparr>)) = 1"
  using notification_once_per_pass [of "engine [Some (tbl 1 ''fr''), Some (tbl 2 ''de'')] []"
    "(LocalizationService_new (engine [] []))\<lparr>CurrentLanguage := by_name ''es''\<rparr>"]
  by (simp add: run_simps)

text \<open>
  C3. The pool of a pass is built from nothing and holds exactly the configured tables
  that resolve and load: a reference that is null or whose loading fails contributes
  nothing, and no error is raised (the pass is a total function). Nothing of an earlier
  pass survives: the active set after a pass is the one the pass computes from any state,
  so a table that failed before is looked at afresh.
\<close>

theorem pool_holds_loaded_tables_only:
  "set (AllTables (CollectTables eng)) =
     {t. Some t \<in> set (SettingsLocalizedStringTables eng) \<and> \<not> WaitForLoaded eng t}
   \<and> LocalizedStringTables (OnLocalizationChanged eng' (OnLocalizationChanged eng s)) =
     LocalizedStringTables (OnLocalizationChanged eng' s)"
proof
  show "set (AllTables (CollectTables eng)) =
     {t. Some t \<in> set (SettingsLocalizedStringTables eng) \<and> \<not> WaitForLoaded eng t}"
  proof -
    have "set (AllTables []) = {}" by (simp add: AllTables_def)
    then show ?thesis by (simp add: CollectTables_def set_collect set_loaded)
  qed
  show "LocalizedStringTables (OnLocalizationChanged eng' (OnLocalizationChanged eng s)) =
     LocalizedStringTables (OnLocalizationChanged eng' s)"
    by (rule ActiveSet_pass_independent) (rule CurrentLanguage_pass)
qed

theorem pool_holds_loaded_tables_only_witness:
  "tbl 3 ''en'' \<in> set (AllTables (CollectTables
      (engine [Some (tbl 1 ''en''), None, Some (tbl 2 ''fr''), Some (tbl 3 ''en''), Some (tbl 4 ''en'')] [4])))
   \<and> tbl 4 ''en'' \<notin> set (AllTables (CollectTables
      (engine [Some (tbl 1 ''en''), None, Some (tbl 2 ''fr''), Some (tbl 3 ''en''), Some (tbl 4 ''en'')] [4])))
   \<and> LocalizedStringTables
        (OnLocalizationChanged
           (engine [Some (tbl 1 ''en''), None, Some (tbl 2 ''fr''), Some (tbl 3 ''en''), Some (tbl 4 ''en'')] [])
           (OnLocalizationChanged
              (engine [Some (tbl 1 ''en''), None, Some (tbl 2 ''fr''), Some (tbl 3 ''en''), Some (tbl 4 ''en'')] [4])
              ((LocalizationService_new (engine [] []))\<lparr>CurrentLanguage := by_name ''en''\<rparr>)))
     = [tbl 1 ''en'', tbl 3 ''en'', tbl 4 ''en'']"
  using pool_holds_loaded_tables_only
    [of "engine [Some (tbl 1 ''en''), None, Some (tbl 2 ''fr''), Some (tbl 3 ''en''), Some (tbl 4 ''en'')] [4]"
        "engine [Some (tbl 1 ''en''), None, Some (tbl 2 ''fr''), Some (tbl 3 ''en''), Some (tbl 4 ''en'')] []"
        "(LocalizationService_new (engine [] []))\<lparr>CurrentLanguage := by_name ''en''\<rparr>"]
  by (simp add: run_simps AllTables_def)

text \<open>
  C4. A call of \<open>SetCurrentLanguage\<close> or \<open>SetCurrentCulture\<close> with a value whose
  locale identifier equals that of the current one returns the state as it was: no pass,
  no notification, no message, the cultures and the active set unchanged. The names of
  the two values play no part.
\<close>

theorem setter_same_value_is_identity:
  "(GetLCID (CurrentLanguage s) = GetLCID v \<longrightarrow> SetCurrentLanguage eng v s = s)
   \<and> (GetLCID (CurrentCulture s) = GetLCID v \<longrightarrow> SetCurrentCulture eng v s = s)"
  by (simp add: SetCurrentLanguage_def SetCurrentCulture_def CultureInfo_eq_def)

theorem setter_same_value_is_identity_witness:
  "GetLCID (CurrentLanguage (fst (Init (engine [Some (tbl 1 ''en'')] []) (LocalizationService_new (engine [] [])))))
     = GetLCID (culture 2057 9 ''en_GB'')
   \<and> GetName (CurrentLanguage (fst (Init (engine [Some (tbl 1 ''en'')] []) (LocalizationService_new (engine [] [])))))
     \<noteq> GetName (culture 2057 9 ''en_GB'')
   \<and> SetCurrentLanguage (engine [Some (tbl 1 ''en'')] []) (culture 2057 9 ''en_GB'')
        (fst (Init (engine [Some (tbl 1 ''en'')] []) (LocalizationService_new (engine [] []))))
     = fst (Init (engine [Some (tbl 1 ''en'')] []) (LocalizationService_new (engine [] [])))
   \<and> SetCurrentCulture (engine [Some (tbl 1 ''en'')] []) (culture 2057 9 ''en_GB'')
        (fst (Init (engine [Some (tbl 1 ''en'')] []) (LocalizationService_new (engine [] []))))
     = fst (Init (engine [Some (tbl 1 ''en'')] []) (LocalizationService_new (engine [] [])))"
  using setter_same_value_is_identity
    [of "fst (Init (engine [Some (tbl 1 ''en'')] []) (LocalizationService_new (engine [] [])))"
        "culture 2057 9 ''en_GB''" "engine [Some (tbl 1 ''en'')] []"]
  by (simp add: run_simps)

text \<open>
  C5. \<open>SetCurrentLanguageCulture\<close> leaves the state as it was if and only if the
  culture and the language both equal the value already. Otherwise it stores the value in
  both fields and runs one pass, so that the notification is sent once. In both cases the
  culture and the language equal the value afterwards.
\<close>

theorem SetCurrentLanguageCulture_both:
  "(SetCurrentLanguageCulture eng v s = s \<longleftrightarrow>
      GetLCID (CurrentCulture s) = GetLCID v \<and> GetLCID (CurrentLanguage s) = GetLCID v)
   \<and> (\<not> (GetLCID (CurrentCulture s) = GetLCID v \<and> GetLCID (CurrentLanguage s) = GetLCID v) \<longrightarrow>
        SetCurrentLanguageCulture eng v s =
          OnLocalizationChanged eng
            (s\<lparr>Logged := Logged s @ [ChangingLanguageCulture (GetName v) (GetLCID v)],
               CurrentCulture := v, CurrentLanguage := v\<rparr>)
        \<and> CurrentCulture (SetCurrentLanguageCulture eng v s) = v
        \<and> CurrentLanguage (SetCurrentLanguageCulture eng v s) = v
        \<and> Fired (SetCurrentLanguageCulture eng v s) = Suc (Fired s))
   \<and> GetLCID (CurrentCulture (SetCurrentLanguageCulture eng v s)) = GetLCID v
   \<and> GetLCID (CurrentLanguage (SetCurrentLanguageCulture eng v s)) = GetLCID v"
proof -
  let ?both = "GetLCID (CurrentCulture s) = GetLCID v \<and> GetLCID (CurrentLanguage s) = GetLCID v"
  let ?s' = "SetCurrentLanguageCulture eng v s"
  have same: "?both \<Longrightarrow> ?s' = s"
    by (simp add: SetCurrentLanguageCulture_def CultureInfo_eq_def)
  have pass: "\<not> ?both \<Longrightarrow> ?s' = OnLocalizationChanged eng
            (s\<lparr>Logged := Logged s @ [ChangingLanguageCulture (GetName v) (GetLCID v)],
               CurrentCulture := v, CurrentLanguage := v\<rparr>)"
    by (auto simp: SetCurrentLanguageCulture_def CultureInfo_eq_def)
  have fired: "\<not> ?both \<Longrightarrow> Fired ?s' = Suc (Fired s)"
    by (simp add: pass Fired_pass)
  have cc: "\<not> ?both \<Longrightarrow> CurrentCulture ?s' = v"
    by (simp add: pass CurrentCulture_pass)
  have cl: "\<not> ?both \<Longrightarrow> CurrentLanguage ?s' = v"
    by (simp add: pass CurrentLanguage_pass)
  have changed: "\<not> ?both \<Longrightarrow> ?s' \<noteq> s"
  proof
    assume "\<not> ?both" and "?s' = s"
    with fired have "Fired s = Suc (Fired s)" by simp
    then show False by simp
  qed
  have after: "GetLCID (CurrentCulture ?s') = GetLCID v \<and> GetLCID (CurrentLanguage ?s') = GetLCID v"
  proof (cases ?both)
    case True
    with same show ?thesis by simp
  next
    case False
    with cc cl show ?thesis by simp
  qed
  have iff: "?s' = s \<longleftrightarrow> ?both"
    using same changed by blast
  show ?thesis
    by (intro conjI impI iff pass cc cl fired) (simp_all add: after)
qed

theorem SetCurrentLanguageCulture_both_witness:
  "\<not> (GetLCID (CurrentCulture (LocalizationService_new (engine [] []))) = GetLCID (by_name ''en-GB'')
       \<and> GetLCID (CurrentLanguage (LocalizationService_new (engine [] []))) = GetLCID (by_name ''en-GB''))
   \<and> SetCurrentLanguageCulture (engine [Some (tbl 1 ''en'')] []) (by_name ''en-GB'')
        (LocalizationService_new (engine [] []))
      \<noteq> LocalizationService_new (engine [] [])
   \<and> CurrentCulture (SetCurrentLanguageCulture (engine [Some (tbl 1 ''en'')] []) (by_name ''en-GB'')
        (LocalizationService_new (engine [] []))) = culture 2057 9 ''en-GB''
   \<and> CurrentLanguage (SetCurrentLanguageCulture (engine [Some (tbl 1 ''en'')] []) (by_name ''en-GB'')
        (LocalizationService_new (engine [] []))) = culture 2057 9 ''en-GB''
   \<and> Fired (SetCurrentLanguageCulture (engine [Some (tbl 1 ''en'')] []) (by_name ''en-GB'')
        (LocalizationService_new (engine [] []))) = 1"
  using SetCurrentLanguageCulture_both
    [of "engine [Some (tbl 1 ''en'')] []" "by_name ''en-GB''" "LocalizationService_new (engine [] [])"]
  by (simp add: run_simps)

text \<open>
  C6. After a pass the active set is empty or is one bucket of the pool, all of whose
  tables carry the locale of the bucket. When the pool has no bucket for the name of the
  language, none for the name of its parent and none for the default, it is empty. In every
  state that the operations of the file produce, the tables of the active set carry one
  locale.
\<close>

theorem ActiveSet_single_bucket:
  "(LocalizedStringTables (OnLocalizationChanged eng s) = [] \<or>
    (\<exists>k. map_of (CollectTables eng) k = Some (LocalizedStringTables (OnLocalizationChanged eng s))
         \<and> (\<forall>t \<in> set (LocalizedStringTables (OnLocalizationChanged eng s)). Locale t = k)))
   \<and> (map_of (CollectTables eng) (GetName (CurrentLanguage s)) = None
      \<and> map_of (CollectTables eng) (ParentName eng (CurrentLanguage s)) = None
      \<and> map_of (CollectTables eng) (GetName (CultureInfoName eng ''en'')) = None \<longrightarrow>
        LocalizedStringTables (OnLocalizationChanged eng s) = [])
   \<and> (reachable r \<longrightarrow> one_locale (LocalizedStringTables r))"
proof (intro conjI impI)
  show "LocalizedStringTables (OnLocalizationChanged eng s) = [] \<or>
    (\<exists>k. map_of (CollectTables eng) k = Some (LocalizedStringTables (OnLocalizationChanged eng s))
         \<and> (\<forall>t \<in> set (LocalizedStringTables (OnLocalizationChanged eng s)). Locale t = k))"
  proof (cases "LocalizedStringTables (OnLocalizationChanged eng s) = []")
    case True
    then show ?thesis by simp
  next
    case False
    with ActiveSet_pass_cases [of eng s]
    obtain k where k: "map_of (CollectTables eng) k =
        Some (LocalizedStringTables (OnLocalizationChanged eng s))" by blast
    from map_of_CollectTables_Some [OF k]
    have A: "LocalizedStringTables (OnLocalizationChanged eng s) =
        filter (\<lambda>t. Locale t = k) (LoadedTables eng)" by simp
    have "\<forall>t \<in> set (LocalizedStringTables (OnLocalizationChanged eng s)). Locale t = k"
      by (subst A) simp
    with k show ?thesis by blast
  qed
next
  assume "map_of (CollectTables eng) (GetName (CurrentLanguage s)) = None
      \<and> map_of (CollectTables eng) (ParentName eng (CurrentLanguage s)) = None
      \<and> map_of (CollectTables eng) (GetName (CultureInfoName eng ''en'')) = None"
  then show "LocalizedStringTables (OnLocalizationChanged eng s) = []"
    unfolding ActiveSet_pass_map_of by simp
next
  assume "reachable r"
  then show "one_locale (LocalizedStringTables r)" by (rule one_locale_reachable)
qed

theorem ActiveSet_single_bucket_witness:
  "map_of (CollectTables (engine [Some (tbl 1 ''fr''), Some (tbl 2 ''de'')] [])) ''es'' = None
   \<and> map_of (CollectTables (engine [Some (tbl 1 ''fr''), Some (tbl 2 ''de'')] [])) ''en'' = None
   \<and> LocalizedStringTables
        (OnLocalizationChanged (engine [Some (tbl 1 ''fr''), Some (tbl 2 ''de'')] [])
           ((LocalizationService_new (engine [] []))\<lparr>CurrentLanguage := by_name ''es''\<rparr>)) = []
   \<and> reachable (SetCurrentLanguage
        (engine [Some (tbl 1 ''en''), Some (tbl 2 ''fr''), Some (tbl 3 ''en'')] [])
        (by_name ''en-GB'') (LocalizationService_new (engine [] [])))
   \<and> one_locale (LocalizedStringTables (SetCurrentLanguage
        (engine [Some (tbl 1 ''en''), Some (tbl 2 ''fr''), Some (tbl 3 ''en'')] [])
        (by_name ''en-GB'') (LocalizationService_new (engine [] []))))"
proof -
  have r: "reachable (SetCurrentLanguage
        (engine [Some (tbl 1 ''en''), Some (tbl 2 ''fr''), Some (tbl 3 ''en'')] [])
        (by_name ''en-GB'') (LocalizationService_new (engine [] [])))"
    by (intro reachable.intros)
  from ActiveSet_single_bucket
    [of "engine [Some (tbl 1 ''fr''), Some (tbl 2 ''de'')] []"
        "(LocalizationService_new (engine [] []))\<lparr>CurrentLanguage := by_name ''es''\<rparr>"
        "SetCurrentLanguage
        (engine [Some (tbl 1 ''en''), Some (tbl 2 ''fr''), Some (tbl 3 ''en'')] [])
        (by_name ''en-GB'') (LocalizationService_new (engine [] []))"] r
  show ?thesis by (simp add: run_simps)
qed

text \<open>
  C7. A non-empty active set lists the loaded tables of its locale in the order of the
  configured list, whatever other entries stand between them: it is the configured list
  of loaded tables filtered by that locale, and a subsequence of the configured list.
\<close>

theorem ActiveSet_configuration_order:
  assumes "LocalizedStringTables (OnLocalizationChanged eng s) \<noteq> []"
  shows "LocalizedStringTables (OnLocalizationChanged eng s) =
           filter (\<lambda>t. Locale t = Locale (hd (LocalizedStringTables (OnLocalizationChanged eng s))))
             (LoadedTables eng)
         \<and> subseq (map Some (LocalizedStringTables (OnLocalizationChanged eng s)))
             (SettingsLocalizedStringTables eng)"
proof -
  let ?A = "LocalizedStringTables (OnLocalizationChanged eng s)"
  from assms ActiveSet_pass_cases [of eng s]
  obtain k where "map_of (CollectTables eng) k = Some ?A" by auto
  then have A: "?A = filter (\<lambda>t. Locale t = k) (LoadedTables eng)"
    by (simp add: map_of_CollectTables_Some)
  from assms have "hd ?A \<in> set ?A" by simp
  with A have "hd ?A \<in> set (filter (\<lambda>t. Locale t = k) (LoadedTables eng))" by simp
  then have k: "Locale (hd ?A) = k" by simp
  have "subseq (map Some (filter (\<lambda>t. Locale t = k) (LoadedTables eng)))
          (map Some (LoadedTables eng))"
    by (simp add: subseq_map)
  also have "subseq (map Some (LoadedTables eng)) (SettingsLocalizedStringTables eng)"
    by (simp add: LoadedTables_def subseq_loaded)
  finally have "subseq (map Some ?A) (SettingsLocalizedStringTables eng)"
    using A by simp
  with A k show ?thesis by simp
qed

theorem ActiveSet_configuration_order_witness:
  "LocalizedStringTables
     (OnLocalizationChanged
        (engine [Some (tbl 1 ''en''), None, Some (tbl 2 ''fr''), Some (tbl 3 ''en''), Some (tbl 4 ''en'')] [4])
        ((LocalizationService_new (engine [] []))\<lparr>CurrentLanguage := by_name ''en-GB''\<rparr>))
     = [tbl 1 ''en'', tbl 3 ''en'']
   \<and> LoadedTables
        (engine [Some (tbl 1 ''en''), None, Some (tbl 2 ''fr''), Some (tbl 3 ''en''), Some (tbl 4 ''en'')] [4])
     = [tbl 1 ''en'', tbl 2 ''fr'', tbl 3 ''en'']
   \<and> subseq (map Some (LocalizedStringTables
        (OnLocalizationChanged
        (engine [Some (tbl 1 ''en''), None, Some (tbl 2 ''fr''), Some (tbl 3 ''en''), Some (tbl 4 ''en'')] [4])
        ((LocalizationService_new (engine [] []))\<lparr>CurrentLanguage := by_name ''en-GB''\<rparr>))))
        [Some (tbl 1 ''en''), None, Some (tbl 2 ''fr''), Some (tbl 3 ''en''), Some (tbl 4 ''en'')]"
  using ActiveSet_configuration_order
    [of "engine [Some (tbl 1 ''en''), None, Some (tbl 2 ''fr''), Some (tbl 3 ''en''), Some (tbl 4 ''en'')] [4]"
        "(LocalizationService_new (engine [] []))\<lparr>CurrentLanguage := by_name ''en-GB''\<rparr>"]
  by (simp add: run_simps)

text \<open>
  C8. Every table of the active set after a pass carries the name of the current
  language, or the non-empty name of its parent culture, or "en"; the bucket of a sibling
  dialect is never taken. As for C1, the culture facility is assumed to give
  \<open>CultureInfo("en")\<close> the name "en".
\<close>

theorem never_unrelated_locale:
  assumes "GetName (CultureInfoName eng ''en'') = ''en''"
  shows "\<forall>t \<in> set (LocalizedStringTables (OnLocalizationChanged eng s)).
           Locale t = GetName (CurrentLanguage s)
           \<or> (ParentName eng (CurrentLanguage s) \<noteq> []
              \<and> Locale t = ParentName eng (CurrentLanguage s))
           \<or> Locale t = ''en''"
proof
  fix t
  let ?A = "LocalizedStringTables (OnLocalizationChanged eng s)"
  assume t: "t \<in> set ?A"
  then have "?A \<noteq> []" by auto
  with ActiveSet_pass_cases [of eng s] assms
  obtain k where k: "map_of (CollectTables eng) k = Some ?A"
    and which: "k = GetName (CurrentLanguage s)
           \<or> (ParentName eng (CurrentLanguage s) \<noteq> [] \<and> k = ParentName eng (CurrentLanguage s))
           \<or> k = ''en''"
    by auto
  from map_of_CollectTables_Some [OF k]
  have A: "?A = filter (\<lambda>t. Locale t = k) (LoadedTables eng)" by simp
  from t have "t \<in> set (filter (\<lambda>t. Locale t = k) (LoadedTables eng))"
    by (subst (asm) A)
  then have "Locale t = k" by simp
  with which show "Locale t = GetName (CurrentLanguage s)
           \<or> (ParentName eng (CurrentLanguage s) \<noteq> []
              \<and> Locale t = ParentName eng (CurrentLanguage s))
           \<or> Locale t = ''en''" by simp
qed

theorem never_unrelated_locale_witness:
  "GetName (CultureInfoName (engine [Some (tbl 1 ''en''), Some (tbl 2 ''es-MX'')] []) ''en'') = ''en''
   \<and> ParentName (engine [Some (tbl 1 ''en''), Some (tbl 2 ''es-MX'')] []) (by_name ''es-AR'') = ''es''
   \<and> LocalizedStringTables
        (OnLocalizationChanged (engine [Some (tbl 1 ''en''), Some (tbl 2 ''es-MX'')] [])
           ((LocalizationService_new (engine [] []))\<lparr>CurrentLanguage := by_name ''es-AR''\<rparr>))
     = [tbl 1 ''en'']
   \<and> tbl 2 ''es-MX'' \<notin> set (LocalizedStringTables
        (OnLocalizationChanged (engine [Some (tbl 1 ''en''), Some (tbl 2 ''es-MX'')] [])
           ((LocalizationService_new (engine [] []))\<lparr>CurrentLanguage := by_name ''es-AR''\<rparr>)))"
  using never_unrelated_locale [of "engine [Some (tbl 1 ''en''), Some (tbl 2 ''es-MX'')] []"
    "(LocalizationService_new (engine [] []))\<lparr>CurrentLanguage := by_name ''es-AR''\<rparr>"]
  by (simp add: run_simps)

text \<open>
  C9. With the same engine and the same current language, two passes give the same
  active set, whatever else the states hold. A second pass right after a first gives the
  same active set again, and each of the two sends the notification.
\<close>

theorem resolution_deterministic_idempotent:
  "(CurrentLanguage s1 = CurrentLanguage s2 \<longrightarrow>
      LocalizedStringTables (OnLocalizationChanged eng s1) =
      LocalizedStringTables (OnLocalizationChanged eng s2))
   \<and> LocalizedStringTables (OnLocalizationChanged eng (OnLocalizationChanged eng s)) =
     LocalizedStringTables (OnLocalizationChanged eng s)
   \<and> Fired (OnLocalizationChanged eng s) = Suc (Fired s)
   \<and> Fired (OnLocalizationChanged eng (OnLocalizationChanged eng s)) = Suc (Suc (Fired s))"
proof (intro conjI impI)
  assume "CurrentLanguage s1 = CurrentLanguage s2"
  then show "LocalizedStringTables (OnLocalizationChanged eng s1) =
      LocalizedStringTables (OnLocalizationChanged eng s2)"
    by (rule ActiveSet_pass_independent)
next
  show "LocalizedStringTables (OnLocalizationChanged eng (OnLocalizationChanged eng s)) =
     LocalizedStringTables (OnLocalizationChanged eng s)"
    by (rule ActiveSet_pass_independent) (rule CurrentLanguage_pass)
next
  show "Fired (OnLocalizationChanged eng s) = Suc (Fired s)"
    by (rule Fired_pass)
next
  show "Fired (OnLocalizationChanged eng (OnLocalizationChanged eng s)) = Suc (Suc (Fired s))"
    by (simp add: Fired_pass)
qed

theorem resolution_deterministic_idempotent_witness:
  "CurrentLanguage ((LocalizationService_new (engine [] []))\<lparr>CurrentLanguage := by_name ''en-GB''\<rparr>)
     = CurrentLanguage ((LocalizationService_new (engine [] []))
         \<lparr>CurrentLanguage := by_name ''en-GB'', LocalizedStringTables := [tbl 9 ''de''], Fired := 5\<rparr>)
   \<and> LocalizedStringTables
        (OnLocalizationChanged (engine [Some (tbl 1 ''en''), Some (tbl 2 ''fr'')] [])
           ((LocalizationService_new (engine [] []))\<lparr>CurrentLanguage := by_name ''en-GB''\<rparr>))
     = LocalizedStringTables
        (OnLocalizationChanged (engine [Some (tbl 1 ''en''), Some (tbl 2 ''fr'')] [])
           ((LocalizationService_new (engine [] []))
              \<lparr>CurrentLanguage := by_name ''en-GB'', LocalizedStringTables := [tbl 9 ''de''], Fired := 5\<rparr>))
   \<and> Fired
        (OnLocalizationChanged (engine [Some (tbl 1 ''en''), Some (tbl 2 ''fr'')] [])
           (OnLocalizationChanged (engine [Some (tbl 1 ''en''), Some (tbl 2 ''fr'')] [])
              ((LocalizationService_new (engine [] []))\<lparr>CurrentLanguage := by_name ''en-GB''\<rparr>))) = 2"
  using resolution_deterministic_idempotent
    [of "(LocalizationService_new (engine [] []))\<lparr>CurrentLanguage := by_name ''en-GB''\<rparr>"
        "(LocalizationService_new (engine [] []))
           \<lparr>CurrentLanguage := by_name ''en-GB'', LocalizedStringTables := [tbl 9 ''de''], Fired := 5\<rparr>"
        "engine [Some (tbl 1 ''en''), Some (tbl 2 ''fr'')] []"]
  by (simp add: run_simps)

text \<open>
  C10. \<open>SetCurrentCulture\<close> does not change the current language, and
  \<open>SetCurrentLanguage\<close> does not change the current culture.
\<close>

theorem single_setters_frame:
  "CurrentLanguage (SetCurrentCulture eng v s) = CurrentLanguage s
   \<and> CurrentCulture (SetCurrentLanguage eng v s) = CurrentCulture s"
  by (simp add: SetCurrentCulture_def SetCurrentLanguage_def CurrentLanguage_pass
      CurrentCulture_pass)

theorem single_setters_frame_witness:
  "CurrentLanguage (SetCurrentCulture (engine [Some (tbl 1 ''en'')] []) (by_name ''fr'')
      (fst (Init (engine [Some (tbl 1 ''en'')] []) (LocalizationService_new (engine [] [])))))
     = culture 2057 9 ''en-GB''
   \<and> CurrentCulture (SetCurrentLanguage (engine [Some (tbl 1 ''en'')] []) (by_name ''fr'')
      (fst (Init (engine [Some (tbl 1 ''en'')] []) (LocalizationService_new (engine [] [])))))
     = culture 2057 9 ''en-GB''"
  using single_setters_frame [of "engine [Some (tbl 1 ''en'')] []" "by_name ''fr''"
    "fst (Init (engine [Some (tbl 1 ''en'')] []) (LocalizationService_new (engine [] [])))"]
  by (simp add: run_simps)

end
